theory Spec2Isabelle
  imports Complex_Main "HOL-Library.Sublist" "HOL-Library.List_Lexorder" "HOL-Library.Char_ord"
begin

section \<open>The video replication pipeline of video\_keev\<close>

text \<open>
  The development embeds the parts of \<^verbatim>\<open>src/video/processor.py\<close>,
  \<^verbatim>\<open>src/workflow/manager.py\<close>, \<^verbatim>\<open>src/api/client.py\<close> and
  \<^verbatim>\<open>src/utils/file_utils.py\<close> that sequence the pipeline. Pixel arithmetic (OpenCV),
  the HTTP transport and the content of log messages are outside the embedding: an image
  is its height, its width and an opaque pixel payload, and the answers of the remote
  service are read from an environment record. Python floats are taken as exact reals.
\<close>

subsection \<open>Exceptions, paths, files\<close>

datatype error =
    FileNotFoundError
  | ValueError
  | RuntimeError
  | ZeroDivisionError
  | OSError
  | CvError
  | RequestError
  | TypeError

text \<open>A path is the list of its components; \<^verbatim>\<open>os.path.join(d, name)\<close> appends one.\<close>

type_synonym path = "string list"

definition path_join :: "path \<Rightarrow> string \<Rightarrow> path" where
  "path_join d name = d @ [name]"

definition basename :: "path \<Rightarrow> string" where
  "basename p = (if p = [] then [] else last p)"

definition dirname :: "path \<Rightarrow> path" where
  "dirname p = butlast p"

text \<open>
  The pixel payload of an image is opaque: it records the decoded source picture and the
  OpenCV operations applied to it since.
\<close>

datatype pixels =
    Source nat
  | Gray pixels
  | Resized pixels
  | Enhanced pixels
  | Normalized pixels
  | Replaced pixels

record image =
  img_height :: nat
  img_width :: nat
  img_pixels :: pixels

text \<open>
  What \<^verbatim>\<open>cv2.VideoCapture\<close> reports and delivers for a decodable file: the frame rate
  and frame count of the container's metadata, and the frames that successive
  \<^verbatim>\<open>cap.read()\<close> calls return before the first \<^verbatim>\<open>ret == False\<close>.
\<close>

record video =
  video_fps :: real
  video_frame_count :: int
  video_width :: nat
  video_height :: nat
  video_frames :: "image list"

datatype content = Image image | Video video | Blob

text \<open>
  The file system: regular files as an association list (the newest binding of a path
  first), the existing directories, and the paths the operating system refuses to delete
  (read-only or in use). \<open>tick\<close> counts the clock readings taken so far and
  \<open>uuid_calls\<close> the identifiers drawn; \<open>client_open\<close> is the HTTP session of the
  remote client; \<open>uploads\<close> are the frames sent to the remote service, each with the
  task id and frame index sent along; \<open>polls\<close> counts the status polls and
  \<open>cancel_requests\<close> lists the tasks whose cancellation was requested.
\<close>

record world =
  files :: "(path \<times> content) list"
  dirs :: "path list"
  undeletable :: "path list"
  tick :: nat
  uuid_calls :: nat
  client_open :: bool
  uploads :: "(string \<times> nat \<times> path) list"
  polls :: nat
  cancel_requests :: "string list"

definition is_file :: "world \<Rightarrow> path \<Rightarrow> bool" where
  "is_file w p \<longleftrightarrow> map_of (files w) p \<noteq> None"

definition is_dir :: "world \<Rightarrow> path \<Rightarrow> bool" where
  "is_dir w p \<longleftrightarrow> p \<in> set (dirs w)"

definition os_path_exists :: "world \<Rightarrow> path \<Rightarrow> bool" where
  "os_path_exists w p \<longleftrightarrow> is_file w p \<or> is_dir w p"

text \<open>
  \<^verbatim>\<open>Path(path).mkdir(parents=True, exist_ok=True)\<close>: creates the directory and its
  missing parents; raises when the path or one of its parents is a regular file.
\<close>

definition ensure_directory :: "path \<Rightarrow> world \<Rightarrow> error + world" where
  "ensure_directory p w =
     (if \<exists>q \<in> set (prefixes p). is_file w q then Inl OSError
      else Inr (w\<lparr>dirs := List.union (dirs w) (prefixes p)\<rparr>))"

text \<open>
  \<^verbatim>\<open>cv2.imread\<close> returns \<^verbatim>\<open>None\<close> for a path that holds no image. \<^verbatim>\<open>cv2.imwrite\<close>
  is taken to write the file: the code never looks at its return value, and every call
  follows the creation of the directory written to.
\<close>

definition imread :: "world \<Rightarrow> path \<Rightarrow> image option" where
  "imread w p = (case map_of (files w) p of Some (Image i) \<Rightarrow> Some i | _ \<Rightarrow> None)"

definition imwrite :: "path \<Rightarrow> image \<Rightarrow> world \<Rightarrow> world" where
  "imwrite p i w = w\<lparr>files := (p, Image i) # files w\<rparr>"

definition VideoCapture :: "world \<Rightarrow> path \<Rightarrow> video option" where
  "VideoCapture w p = (case map_of (files w) p of Some (Video v) \<Rightarrow> Some v | _ \<Rightarrow> None)"

subsection \<open>Frame file names\<close>

definition digit_char :: "nat \<Rightarrow> char" where
  "digit_char d = ''0123456789'' ! (d mod 10)"

fun dec :: "nat \<Rightarrow> string" where
  "dec n = (if n < 10 then [digit_char n] else dec (n div 10) @ [digit_char (n mod 10)])"

declare dec.simps [simp del]

text \<open>\<^verbatim>\<open>f"frame_{extracted_count:06d}.png"\<close>\<close>

definition frame_filename :: "nat \<Rightarrow> string" where
  "frame_filename n = ''frame_'' @ replicate (6 - length (dec n)) (CHR ''0'') @ dec n @ ''.png''"

subsection \<open>Frame extraction (\<^verbatim>\<open>VideoProcessor.extract_frames\<close>)\<close>

text \<open>Python's \<^verbatim>\<open>int(x)\<close> on a float truncates towards zero.\<close>

definition py_int :: "real \<Rightarrow> int" where
  "py_int x = (if 0 \<le> x then \<lfloor>x\<rfloor> else \<lceil>x\<rceil>)"

text \<open>
  \<^verbatim>\<open>extract_interval = 1\<close>, replaced by \<^verbatim>\<open>int(video_fps / frame_rate)\<close> when a rate
  below the native one is requested; float division by zero raises.
\<close>

definition extract_interval :: "real \<Rightarrow> real option \<Rightarrow> error + int" where
  "extract_interval fps frame_rate =
     (case frame_rate of
        None \<Rightarrow> Inr 1
      | Some r \<Rightarrow>
          if r < fps then (if r = 0 then Inl ZeroDivisionError else Inr (py_int (fps / r)))
          else Inr 1)"

text \<open>
  The progress log line after \<^verbatim>\<open>frame_count += 1\<close> evaluates
  \<^verbatim>\<open>frame_count / total_frames\<close> whenever \<^verbatim>\<open>frame_count % 100 == 0\<close> or
  \<^verbatim>\<open>frame_count == total_frames\<close>; the division raises when the metadata count is 0.
\<close>

definition progress_log_raises :: "nat \<Rightarrow> int \<Rightarrow> bool" where
  "progress_log_raises frame_count total_frames \<longleftrightarrow>
     (frame_count mod 100 = 0 \<or> int frame_count = total_frames) \<and> total_frames = 0"

text \<open>
  The \<^verbatim>\<open>while True\<close> loop over \<^verbatim>\<open>cap.read()\<close>: the list argument holds the frames
  not read yet, \<open>frame_count\<close> and \<open>extracted_count\<close> are the loop's counters,
  \<open>frame_paths\<close> its accumulator. The cap is tested only after a frame has been written.
\<close>

fun extract_loop ::
  "path \<Rightarrow> int \<Rightarrow> int option \<Rightarrow> int \<Rightarrow> image list \<Rightarrow> nat \<Rightarrow> nat \<Rightarrow> path list \<Rightarrow> world
     \<Rightarrow> (error + path list) \<times> world" where
  "extract_loop output_dir interval max_frames total_frames [] frame_count extracted_count
       frame_paths w = (Inr frame_paths, w)"
| "extract_loop output_dir interval max_frames total_frames (frame # rest) frame_count
       extracted_count frame_paths w =
     (if interval = 0 then (Inl ZeroDivisionError, w)
      else if int frame_count mod interval = 0 then
        (let frame_path = path_join output_dir (frame_filename extracted_count);
             w' = imwrite frame_path frame w;
             frame_paths' = frame_paths @ [frame_path];
             extracted_count' = extracted_count + 1
         in if (case max_frames of None \<Rightarrow> False | Some m \<Rightarrow> int extracted_count' \<ge> m)
            then (Inr frame_paths', w')
            else if progress_log_raises (frame_count + 1) total_frames
            then (Inl ZeroDivisionError, w')
            else extract_loop output_dir interval max_frames total_frames rest
                   (frame_count + 1) extracted_count' frame_paths' w')
      else if progress_log_raises (frame_count + 1) total_frames
      then (Inl ZeroDivisionError, w)
      else extract_loop output_dir interval max_frames total_frames rest
             (frame_count + 1) extracted_count frame_paths w)"

text \<open>
  \<^verbatim>\<open>extract_frames(video_path, output_dir, frame_rate, max_frames)\<close>. Every caller in
  the repository passes \<open>output_dir\<close>, so the branch that invents a directory name when
  it is \<^verbatim>\<open>None\<close> is left out. An exception keeps the files written so far.
\<close>

definition extract_frames ::
  "path \<Rightarrow> path \<Rightarrow> real option \<Rightarrow> int option \<Rightarrow> world \<Rightarrow> (error + path list) \<times> world" where
  "extract_frames video_path output_dir frame_rate max_frames w =
     (if \<not> os_path_exists w video_path then (Inl FileNotFoundError, w)
      else case ensure_directory output_dir w of
        Inl e \<Rightarrow> (Inl e, w)
      | Inr w1 \<Rightarrow>
         (case VideoCapture w1 video_path of
            None \<Rightarrow> (Inl ValueError, w1)
          | Some cap \<Rightarrow>
             (case extract_interval (video_fps cap) frame_rate of
                Inl e \<Rightarrow> (Inl e, w1)
              | Inr interval \<Rightarrow>
                  extract_loop output_dir interval max_frames (video_frame_count cap)
                    (video_frames cap) 0 0 [] w1)))"


subsection \<open>Frame preprocessing (\<^verbatim>\<open>VideoProcessor.preprocess_frames\<close>)\<close>

text \<open>The keyword arguments read by \<^verbatim>\<open>preprocess_frames\<close>, with their defaults.\<close>

record preprocess_config =
  resize :: "(nat \<times> nat) option"
  normalize :: bool
  grayscale :: bool
  enhance_features :: bool
  preserve_details :: bool

definition default_preprocess_config :: preprocess_config where
  "default_preprocess_config =
     \<lparr>resize = None, normalize = False, grayscale = False, enhance_features = False,
      preserve_details = False\<rparr>"

text \<open>
  \<^verbatim>\<open>_preprocess_single_frame\<close>. An unreadable frame makes \<^verbatim>\<open>cv2.imread\<close> return
  \<^verbatim>\<open>None\<close>, on which the first OpenCV call that follows (at the latest
  \<^verbatim>\<open>cv2.imwrite\<close>) raises; \<^verbatim>\<open>cv2.resize\<close> raises on an empty target size. The
  result is written under the input's base name in \<open>output_dir\<close>.
\<close>

definition resize_frame :: "(nat \<times> nat) option \<Rightarrow> image \<Rightarrow> error + image" where
  "resize_frame target frame =
     (case target of
        None \<Rightarrow> Inr frame
      | Some (rw, rh) \<Rightarrow>
          if rw = 0 \<or> rh = 0 then Inl CvError
          else Inr \<lparr>img_height = rh, img_width = rw, img_pixels = Resized (img_pixels frame)\<rparr>)"

definition preprocess_single_frame ::
  "path \<Rightarrow> path \<Rightarrow> preprocess_config \<Rightarrow> world \<Rightarrow> (error + path) \<times> world" where
  "preprocess_single_frame frame_path output_dir cfg w =
     (case imread w frame_path of
        None \<Rightarrow> (Inl CvError, w)
      | Some frame \<Rightarrow>
         (let f1 = (if grayscale cfg then frame\<lparr>img_pixels := Gray (img_pixels frame)\<rparr>
                    else frame)
          in (case resize_frame (resize cfg) f1 of
                Inl e \<Rightarrow> (Inl e, w)
              | Inr f2 \<Rightarrow>
                 (let f3 = (if enhance_features cfg \<and> \<not> grayscale cfg
                            then f2\<lparr>img_pixels := Enhanced (img_pixels f2)\<rparr> else f2);
                      f4 = (if normalize cfg
                            then f3\<lparr>img_pixels := Normalized (img_pixels f3)\<rparr> else f3);
                      output_path = path_join output_dir (basename frame_path)
                  in (Inr output_path, imwrite output_path f4 w)))))"

text \<open>
  The loop over \<^verbatim>\<open>as_completed(future_to_frame)\<close>. \<open>order\<close> lists the indices of the
  submitted tasks in the order in which \<^verbatim>\<open>as_completed\<close> yields their futures; each
  task is taken as one atomic step, run in that order. A result is appended to
  \<open>processed_paths\<close> as it arrives; a task that raised is logged and contributes nothing.
\<close>

fun collect_completed ::
  "path list \<Rightarrow> path \<Rightarrow> preprocess_config \<Rightarrow> nat list \<Rightarrow> path list \<Rightarrow> world
     \<Rightarrow> path list \<times> world" where
  "collect_completed frame_paths output_dir cfg [] processed_paths w = (processed_paths, w)"
| "collect_completed frame_paths output_dir cfg (i # order) processed_paths w =
     (if i < length frame_paths then
        (case preprocess_single_frame (frame_paths ! i) output_dir cfg w of
           (Inr processed_path, w') \<Rightarrow>
             collect_completed frame_paths output_dir cfg order
               (processed_paths @ [processed_path]) w'
         | (Inl e, w') \<Rightarrow>
             collect_completed frame_paths output_dir cfg order processed_paths w')
      else collect_completed frame_paths output_dir cfg order processed_paths w)"

definition preprocess_frames ::
  "path list \<Rightarrow> path \<Rightarrow> preprocess_config \<Rightarrow> nat list \<Rightarrow> world
     \<Rightarrow> (error + path list) \<times> world" where
  "preprocess_frames frame_paths output_dir cfg order w =
     (case ensure_directory output_dir w of
        Inl e \<Rightarrow> (Inl e, w)
      | Inr w1 \<Rightarrow>
          (case collect_completed frame_paths output_dir cfg order [] w1 of
             (processed_paths, w') \<Rightarrow> (Inr processed_paths, w')))"

text \<open>
  The completion orders a pool of \<open>W\<close> workers can produce for \<open>n\<close> tasks submitted
  in index order: every task completes once, and the task completing in position \<open>j\<close>
  was among the first \<open>j + W\<close> submitted (a worker takes the next task only when it
  has finished one).
\<close>

definition pool_order :: "nat \<Rightarrow> nat \<Rightarrow> nat list \<Rightarrow> bool" where
  "pool_order W n order \<longleftrightarrow>
     sort order = [0..<n] \<and> list_all (\<lambda>j. order ! j < j + W) [0..<n]"

subsection \<open>Video composition (\<^verbatim>\<open>VideoProcessor.frames_to_video\<close>)\<close>

text \<open>
  The writing loop: an unreadable frame is skipped (\<^verbatim>\<open>continue\<close>), a frame of
  another size is resized to the writer's size, every other frame is written as it is.
\<close>

definition fit_frame :: "nat \<Rightarrow> nat \<Rightarrow> image \<Rightarrow> image" where
  "fit_frame height width frame =
     (if img_height frame \<noteq> height \<or> img_width frame \<noteq> width
      then \<lparr>img_height = height, img_width = width, img_pixels = Resized (img_pixels frame)\<rparr>
      else frame)"

fun write_frames :: "world \<Rightarrow> nat \<Rightarrow> nat \<Rightarrow> path list \<Rightarrow> image list" where
  "write_frames w height width [] = []"
| "write_frames w height width (frame_path # rest) =
     (case imread w frame_path of
        None \<Rightarrow> write_frames w height width rest
      | Some frame \<Rightarrow> fit_frame height width frame # write_frames w height width rest)"

text \<open>
  \<^verbatim>\<open>frames_to_video(frame_paths, output_path, fps)\<close> with the default codec. The
  encoded file holds the frames written, at the size of \<^verbatim>\<open>frame_paths[0]\<close>.
\<close>

definition frames_to_video ::
  "path list \<Rightarrow> path \<Rightarrow> real \<Rightarrow> world \<Rightarrow> (error + path) \<times> world" where
  "frames_to_video frame_paths output_path fps w =
     (if frame_paths = [] then (Inl ValueError, w)
      else case ensure_directory (dirname output_path) w of
        Inl e \<Rightarrow> (Inl e, w)
      | Inr w1 \<Rightarrow>
         (case imread w1 (hd frame_paths) of
            None \<Rightarrow> (Inl ValueError, w1)
          | Some first_frame \<Rightarrow>
              let height = img_height first_frame;
                  width = img_width first_frame;
                  written = write_frames w1 height width frame_paths
              in (Inr output_path,
                  w1\<lparr>files := (output_path,
                        Video \<lparr>video_fps = fps, video_frame_count = int (length written),
                               video_width = width, video_height = height,
                               video_frames = written\<rparr>) # files w1\<rparr>)))"

subsection \<open>Video metadata (\<^verbatim>\<open>VideoProcessor.get_video_info\<close>)\<close>

record video_info =
  info_width :: nat
  info_height :: nat
  info_fps :: real
  info_frame_count :: int

definition get_video_info :: "world \<Rightarrow> path \<Rightarrow> error + video_info" where
  "get_video_info w video_path =
     (if \<not> os_path_exists w video_path then Inl FileNotFoundError
      else case VideoCapture w video_path of
        None \<Rightarrow> Inl ValueError
      | Some cap \<Rightarrow>
          Inr \<lparr>info_width = video_width cap, info_height = video_height cap,
               info_fps = video_fps cap, info_frame_count = video_frame_count cap\<rparr>)"


subsection \<open>Local replacement (\<^verbatim>\<open>ReplacementProcessor.process_frames_batch\<close>)\<close>

record replacement_config =
  person_enabled :: bool
  background_enabled :: bool
  product_enabled :: bool

definition replacement_types :: "replacement_config \<Rightarrow> string list" where
  "replacement_types rc =
     (if person_enabled rc then [''person''] else []) @
     (if background_enabled rc then [''background''] else []) @
     (if product_enabled rc then [''product''] else [])"

text \<open>
  \<^verbatim>\<open>safe_copy(src, dst)\<close> with \<^verbatim>\<open>overwrite=False\<close>: nothing is copied when the source
  is no regular file or the destination exists already.
\<close>

definition safe_copy :: "path \<Rightarrow> content \<Rightarrow> path \<Rightarrow> world \<Rightarrow> world" where
  "safe_copy src c dst w =
     (if \<not> is_file w src \<or> os_path_exists w dst then w
      else w\<lparr>files := (dst, c) # files w\<rparr>)"

text \<open>
  \<^verbatim>\<open>process_frame\<close>: detection, masking and compositing are placeholders in the
  source; a readable frame passes through one replacement per enabled category (each
  through a temporary file that is removed again), anything else is copied as it is.
  The output path is returned whether or not the copy took place.
\<close>

definition process_frame ::
  "path \<Rightarrow> replacement_config \<Rightarrow> path \<Rightarrow> world \<Rightarrow> (error + path) \<times> world" where
  "process_frame frame_path rc output_dir w =
     (case ensure_directory output_dir w of
        Inl e \<Rightarrow> (Inl e, w)
      | Inr w1 \<Rightarrow>
          let output_path = path_join output_dir (basename frame_path);
              result =
                (case map_of (files w1) frame_path of
                   Some (Image i) \<Rightarrow>
                     Image (i\<lparr>img_pixels :=
                        (Replaced ^^ length (replacement_types rc)) (img_pixels i)\<rparr>)
                 | Some c \<Rightarrow> c
                 | None \<Rightarrow> Blob)
          in (Inr output_path, safe_copy frame_path result output_path w1))"

fun process_frames_batch ::
  "path list \<Rightarrow> replacement_config \<Rightarrow> path \<Rightarrow> path list \<Rightarrow> world
     \<Rightarrow> (error + path list) \<times> world" where
  "process_frames_batch [] rc output_dir processed_paths w = (Inr processed_paths, w)"
| "process_frames_batch (frame_path # rest) rc output_dir processed_paths w =
     (case process_frame frame_path rc output_dir w of
        (Inl e, w') \<Rightarrow> (Inl e, w')
      | (Inr processed_path, w') \<Rightarrow>
          process_frames_batch rest rc output_dir (processed_paths @ [processed_path]) w')"

subsection \<open>The remote client (\<^verbatim>\<open>ComfyUIClient\<close>)\<close>

datatype remote_status = Queued | Running | RemoteCompleted | RemoteFailed | RemoteCanceled

text \<open>
  What the surroundings answer during one run: the clock (indexed by the number of
  readings taken before), the identifiers \<^verbatim>\<open>uuid.uuid4()\<close> draws, the formatting of a
  time stamp, the order in which the thread pool completes \<open>n\<close> tasks, and the
  remote service: whether the connectivity check succeeds, what the submission returns
  (an exception, or the \<^verbatim>\<open>task_id\<close> entry of the response, which may be absent), whether
  the upload of a file raises, and the status the \<open>k\<close>-th poll reports.
\<close>

record env =
  clock :: "nat \<Rightarrow> real"
  uuid4 :: "nat \<Rightarrow> string"
  strftime :: "real \<Rightarrow> string"
  as_completed :: "nat \<Rightarrow> nat list"
  connection_ok :: bool
  submit_response :: "error + string option"
  upload_raises :: "path \<Rightarrow> error option"
  task_status :: "nat \<Rightarrow> error + remote_status"

definition time_time :: "env \<Rightarrow> world \<Rightarrow> real \<times> world" where
  "time_time ev w = (clock ev (tick w), w\<lparr>tick := tick w + 1\<rparr>)"

text \<open>\<^verbatim>\<open>sorted([f for f in Path(frames_dir).iterdir() if f.is_file()])\<close>\<close>

definition iterdir_files :: "world \<Rightarrow> path \<Rightarrow> path list" where
  "iterdir_files w d = sort (remdups [p \<leftarrow> map fst (files w). p \<noteq> [] \<and> dirname p = d])"

fun upload_loop :: "env \<Rightarrow> string \<Rightarrow> path list \<Rightarrow> nat \<Rightarrow> world \<Rightarrow> (error + nat) \<times> world" where
  "upload_loop ev tid [] i w = (Inr i, w)"
| "upload_loop ev tid (frame_file # rest) i w =
     (case upload_raises ev frame_file of
        Some e \<Rightarrow> (Inl e, w)
      | None \<Rightarrow> upload_loop ev tid rest (i + 1) (w\<lparr>uploads := uploads w @ [(tid, i, frame_file)]\<rparr>))"

text \<open>
  \<^verbatim>\<open>upload_video_frames(frames_dir, task_id)\<close>: uploads every regular file found
  directly in \<open>frames_dir\<close> and returns how many were sent.
\<close>

definition upload_video_frames :: "env \<Rightarrow> path \<Rightarrow> string \<Rightarrow> world \<Rightarrow> (error + nat) \<times> world" where
  "upload_video_frames ev frames_dir tid w =
     (if \<not> is_dir w frames_dir then (Inl FileNotFoundError, w)
      else let frame_files = iterdir_files w frames_dir
           in if frame_files = [] then (Inl ValueError, w)
              else upload_loop ev tid frame_files 0 w)"

text \<open>
  \<^verbatim>\<open>wait_for_task_completion\<close>: the \<^verbatim>\<open>while True\<close> polling loop has no bound of its
  own, so the call need not return; \<open>None\<close> is the run that polls forever.
\<close>

partial_function (option) wait_for_task_completion ::
  "env \<Rightarrow> string \<Rightarrow> world \<Rightarrow> ((error + remote_status) \<times> world) option" where
  "wait_for_task_completion ev tid w =
     (case task_status ev (polls w) of
        Inl e \<Rightarrow> Some (Inl e, w\<lparr>polls := polls w + 1\<rparr>)
      | Inr st \<Rightarrow>
          if st = RemoteCompleted then Some (Inr st, w\<lparr>polls := polls w + 1\<rparr>)
          else if st = RemoteFailed then Some (Inl RuntimeError, w\<lparr>polls := polls w + 1\<rparr>)
          else if st = RemoteCanceled then Some (Inl RuntimeError, w\<lparr>polls := polls w + 1\<rparr>)
          else wait_for_task_completion ev tid (w\<lparr>polls := polls w + 1\<rparr>))"

declare wait_for_task_completion.simps [code]

subsection \<open>File removal (\<^verbatim>\<open>file_utils.remove_directory\<close>)\<close>

text \<open>
  \<^verbatim>\<open>shutil.rmtree(directory, ignore_errors=True)\<close>: every entry at or below the directory
  is removed except those the operating system refuses to delete and the directories that
  still hold such an entry; no error is raised. On a path that is no directory nothing
  is removed.
\<close>

definition stays :: "world \<Rightarrow> path \<Rightarrow> bool" where
  "stays w p \<longleftrightarrow> (\<exists>u \<in> set (undeletable w). prefix p u \<and> os_path_exists w u)"

definition rmtree :: "path \<Rightarrow> world \<Rightarrow> world" where
  "rmtree d w =
     (if \<not> is_dir w d then w
      else w\<lparr>files := [(p, c) \<leftarrow> files w. \<not> prefix d p \<or> stays w p],
             dirs := [p \<leftarrow> dirs w. \<not> prefix d p \<or> stays w p]\<rparr>)"

definition remove_directory :: "path \<Rightarrow> world \<Rightarrow> world" where
  "remove_directory d w = (if os_path_exists w d then rmtree d w else w)"

text \<open>\<^verbatim>\<open>os.remove(path)\<close> raises on a directory and on a file that cannot be deleted.\<close>

definition os_remove :: "path \<Rightarrow> world \<Rightarrow> error + world" where
  "os_remove p w =
     (if \<not> is_file w p \<or> p \<in> set (undeletable w) then Inl OSError
      else Inr (w\<lparr>files := [(q, c) \<leftarrow> files w. q \<noteq> p]\<rparr>))"


subsection \<open>The workflow manager (\<^verbatim>\<open>WorkflowManager\<close>)\<close>

datatype status =
    Idle
  | Preparing
  | ExtractingFrames
  | PreprocessingFrames
  | LocalReplacementPreprocessing
  | UploadingFrames
  | ExecutingWorkflow
  | DownloadingResults
  | ComposingVideo
  | Completed
  | Failed
  | Canceled

record manager =
  workflow_id :: "string option"
  status :: status
  progress :: real
  start_time :: "real option"
  end_time :: "real option"
  working_dir :: "path option"
  input_video_path :: "path option"
  output_video_path :: "path option"
  frame_paths :: "path list"
  processed_frame_paths :: "path list"
  task_id :: "string option"

text \<open>The state after \<^verbatim>\<open>__init__\<close>.\<close>

definition init_manager :: manager where
  "init_manager =
     \<lparr>workflow_id = None, status = Idle, progress = 0, start_time = None, end_time = None,
      working_dir = None, input_video_path = None, output_video_path = None,
      frame_paths = [], processed_frame_paths = [], task_id = None\<rparr>"

text \<open>The two configuration entries the manager reads, and the workflow configuration.\<close>

record config =
  temp_dir :: path
  output_dir :: path

record workflow_config =
  frame_rate :: "real option"
  max_frames :: "int option"
  preprocess :: preprocess_config
  replacement :: "replacement_config option"

text \<open>
  A session is the manager together with the world it acts on. \<open>observed\<close> lists the
  successive states of the manager's fields, one entry for every method call or
  assignment that changes them: what a \<^verbatim>\<open>get_status()\<close> from another thread of control
  can see, in order.
\<close>

record session =
  mgr :: manager
  observed :: "manager list"
  wld :: world

definition assign :: "(manager \<Rightarrow> manager) \<Rightarrow> session \<Rightarrow> session" where
  "assign f s = s\<lparr>mgr := f (mgr s), observed := observed s @ [f (mgr s)]\<rparr>"

definition update_status :: "status \<Rightarrow> session \<Rightarrow> session" where
  "update_status st = assign (\<lambda>m. m\<lparr>status := st\<rparr>)"

definition update_progress :: "real \<Rightarrow> session \<Rightarrow> session" where
  "update_progress p = assign (\<lambda>m. m\<lparr>progress := min 100 (max 0 p)\<rparr>)"

definition read_clock :: "env \<Rightarrow> session \<Rightarrow> real \<times> session" where
  "read_clock ev s = (case time_time ev (wld s) of (t, w') \<Rightarrow> (t, s\<lparr>wld := w'\<rparr>))"

definition set_failed_state :: "env \<Rightarrow> session \<Rightarrow> session" where
  "set_failed_state ev s =
     (case read_clock ev s of
        (t, s') \<Rightarrow> assign (\<lambda>m. m\<lparr>status := Failed, end_time := Some t\<rparr>) s')"

definition reset_state :: "session \<Rightarrow> session" where
  "reset_state = assign (\<lambda>m. init_manager)"

definition has_replacement :: "workflow_config \<Rightarrow> bool" where
  "has_replacement wc =
     (case replacement wc of
        None \<Rightarrow> False
      | Some rc \<Rightarrow> person_enabled rc \<or> background_enabled rc \<or> product_enabled rc)"

definition requested_rate :: "workflow_config \<Rightarrow> video_info \<Rightarrow> real" where
  "requested_rate wc vi = (case frame_rate wc of Some r \<Rightarrow> r | None \<Rightarrow> info_fps vi)"

text \<open>
  The body of the \<^verbatim>\<open>try\<close> block of \<^verbatim>\<open>_execute_workflow_steps\<close>, in the order of the
  source and cut at the blocking wait. First the metadata, step 1 (extraction) and
  step 2 (preprocessing).
\<close>

definition steps_extract_preprocess ::
  "env \<Rightarrow> workflow_config \<Rightarrow> session \<Rightarrow> (error + video_info \<times> path) \<times> session" where
  "steps_extract_preprocess ev wc s0 =
     (let s1 = update_status Preparing s0 in
      case input_video_path (mgr s1) of
        None \<Rightarrow> (Inl TypeError, s1)
      | Some input \<Rightarrow>
         (case get_video_info (wld s1) input of
            Inl e \<Rightarrow> (Inl e, s1)
          | Inr vi \<Rightarrow>
             (let s2 = update_status ExtractingFrames s1 in
              case working_dir (mgr s2) of
                None \<Rightarrow> (Inl TypeError, s2)
              | Some wdir \<Rightarrow>
                 (case extract_frames input (path_join wdir ''frames'')
                         (Some (requested_rate wc vi)) (max_frames wc) (wld s2) of
                    (Inl e, w3) \<Rightarrow> (Inl e, s2\<lparr>wld := w3\<rparr>)
                  | (Inr paths, w3) \<Rightarrow>
                     (let s3 = assign (\<lambda>m. m\<lparr>frame_paths := paths\<rparr>) (s2\<lparr>wld := w3\<rparr>);
                          s4 = update_progress 20 s3;
                          s5 = update_status PreprocessingFrames s4;
                          processed_dir = path_join wdir ''processed_frames'';
                          pc = (if has_replacement wc
                                then (preprocess wc)\<lparr>enhance_features := True,
                                                      preserve_details := True\<rparr>
                                else preprocess wc)
                      in case preprocess_frames (frame_paths (mgr s5)) processed_dir pc
                                (as_completed ev (length (frame_paths (mgr s5)))) (wld s5) of
                           (Inl e, w6) \<Rightarrow> (Inl e, s5\<lparr>wld := w6\<rparr>)
                         | (Inr processed, w6) \<Rightarrow>
                            (let s6 = assign (\<lambda>m. m\<lparr>processed_frame_paths := processed\<rparr>)
                                        (s5\<lparr>wld := w6\<rparr>)
                             in (Inr (vi, processed_dir), update_progress 40 s6)))))))"

text \<open>Step 3 of the source, the optional local replacement.\<close>

definition step_local_replacement ::
  "workflow_config \<Rightarrow> session \<Rightarrow> (error + unit) \<times> session" where
  "step_local_replacement wc s0 =
     (case (if has_replacement wc then replacement wc else None) of
        None \<Rightarrow> (Inr (), s0)
      | Some rc \<Rightarrow>
         (let s1 = update_status LocalReplacementPreprocessing s0 in
          case working_dir (mgr s1) of
            None \<Rightarrow> (Inl TypeError, s1)
          | Some wdir \<Rightarrow>
             (case process_frames_batch (processed_frame_paths (mgr s1)) rc
                     (path_join wdir ''replaced_frames'') [] (wld s1) of
                (Inl e, w2) \<Rightarrow> (Inl e, s1\<lparr>wld := w2\<rparr>)
              | (Inr local_replaced_paths, w2) \<Rightarrow>
                  (Inr (), assign (\<lambda>m. m\<lparr>processed_frame_paths := local_replaced_paths\<rparr>)
                             (s1\<lparr>wld := w2\<rparr>)))))"

text \<open>
  The connectivity check and step 4: the submission, the assignment of
  \<^verbatim>\<open>self.task_id\<close>, and the upload of the files of \<^verbatim>\<open>processed_dir\<close>, the local
  variable set in step 2. The plain submission (\<^verbatim>\<open>execute_workflow\<close>) raises by itself
  when the response has no task id; the replacement submission returns the response as it
  is. The request body built by \<^verbatim>\<open>_prepare_workflow_data\<close> does not enter the model.
\<close>

definition falsy :: "string option \<Rightarrow> bool" where
  "falsy x \<longleftrightarrow> x = None \<or> x = Some []"

definition step_submit_upload ::
  "env \<Rightarrow> workflow_config \<Rightarrow> path \<Rightarrow> session \<Rightarrow> (error + string) \<times> session" where
  "step_submit_upload ev wc processed_dir s0 =
     (if \<not> connection_ok ev then (Inl RuntimeError, s0)
      else
       (let s1 = update_status UploadingFrames s0 in
        case submit_response ev of
          Inl e \<Rightarrow> (Inl e, s1)
        | Inr response_task_id \<Rightarrow>
            if \<not> has_replacement wc \<and> falsy response_task_id then (Inl ValueError, s1)
            else
             (let s2 = assign (\<lambda>m. m\<lparr>task_id := response_task_id\<rparr>) s1 in
              case (if falsy (task_id (mgr s2)) then None else task_id (mgr s2)) of
                None \<Rightarrow> (Inl ValueError, s2)
              | Some tid \<Rightarrow>
                 (case upload_video_frames ev processed_dir tid (wld s2) of
                    (Inl e, w3) \<Rightarrow> (Inl e, s2\<lparr>wld := w3\<rparr>)
                  | (Inr n, w3) \<Rightarrow> (Inr tid, update_progress 60 (s2\<lparr>wld := w3\<rparr>))))))"

text \<open>Steps 6 and 7, after the wait has returned: result frames and composition.\<close>

definition steps_download_compose ::
  "env \<Rightarrow> real \<Rightarrow> session \<Rightarrow> (error + unit) \<times> session" where
  "steps_download_compose ev fps s0 =
     (let s1 = update_status DownloadingResults (update_progress 80 s0) in
      case working_dir (mgr s1) of
        None \<Rightarrow> (Inl TypeError, s1)
      | Some wdir \<Rightarrow>
         (case ensure_directory (path_join wdir ''results'') (wld s1) of
            Inl e \<Rightarrow> (Inl e, s1)
          | Inr w2 \<Rightarrow>
             (let result_frame_paths = processed_frame_paths (mgr s1);
                  s2 = update_status ComposingVideo (update_progress 90 (s1\<lparr>wld := w2\<rparr>))
              in case output_video_path (mgr s2) of
                   None \<Rightarrow> (Inl TypeError, s2)
                 | Some output \<Rightarrow>
                    (case ensure_directory (dirname output) (wld s2) of
                       Inl e \<Rightarrow> (Inl e, s2)
                     | Inr w3 \<Rightarrow>
                        (case frames_to_video result_frame_paths output fps w3 of
                           (Inl e, w4) \<Rightarrow> (Inl e, s2\<lparr>wld := w4\<rparr>)
                         | (Inr out, w4) \<Rightarrow>
                            (let s3 = update_status Completed
                                        (update_progress 100 (s2\<lparr>wld := w4\<rparr>))
                             in case read_clock ev s3 of
                                  (t, s4) \<Rightarrow>
                                    (Inr (), assign (\<lambda>m. m\<lparr>end_time := Some t\<rparr>) s4)))))))"

text \<open>The whole \<^verbatim>\<open>try\<close> block; \<open>None\<close> when the wait of step 5 never returns.\<close>

definition try_workflow_steps ::
  "env \<Rightarrow> workflow_config \<Rightarrow> session \<Rightarrow> ((error + unit) \<times> session) option" where
  "try_workflow_steps ev wc s0 =
     (case steps_extract_preprocess ev wc s0 of
        (Inl e, s1) \<Rightarrow> Some (Inl e, s1)
      | (Inr (vi, processed_dir), s1) \<Rightarrow>
         (case step_local_replacement wc s1 of
            (Inl e, s2) \<Rightarrow> Some (Inl e, s2)
          | (Inr u, s2) \<Rightarrow>
             (case step_submit_upload ev wc processed_dir s2 of
                (Inl e, s3) \<Rightarrow> Some (Inl e, s3)
              | (Inr tid, s3) \<Rightarrow>
                 (let s4 = update_status ExecutingWorkflow s3 in
                  case wait_for_task_completion ev tid (wld s4) of
                    None \<Rightarrow> None
                  | Some (Inl e, w5) \<Rightarrow> Some (Inl e, s4\<lparr>wld := w5\<rparr>)
                  | Some (Inr task_result, w5) \<Rightarrow>
                      Some (steps_download_compose ev (requested_rate wc vi)
                              (s4\<lparr>wld := w5\<rparr>))))))"

text \<open>
  \<^verbatim>\<open>_execute_workflow_steps\<close>: the \<^verbatim>\<open>try\<close> block with its handler, which records the
  failure and raises the exception again.
\<close>

definition execute_workflow_steps ::
  "env \<Rightarrow> workflow_config \<Rightarrow> session \<Rightarrow> ((error + unit) \<times> session) option" where
  "execute_workflow_steps ev wc s =
     (case try_workflow_steps ev wc s of
        None \<Rightarrow> None
      | Some (Inl e, s') \<Rightarrow> Some (Inl e, set_failed_state ev s')
      | Some (Inr u, s') \<Rightarrow> Some (Inr u, s'))"


text \<open>
  \<^verbatim>\<open>os.path.splitext(name)[0]\<close>: the name up to its last dot, unless only dots come
  before that dot.
\<close>

definition splitext_root :: "string \<Rightarrow> string" where
  "splitext_root name =
     (let stem = rev (drop 1 (dropWhile (\<lambda>c. c \<noteq> CHR ''.'') (rev name)))
      in if CHR ''.'' \<in> set name \<and> (\<exists>c \<in> set stem. c \<noteq> CHR ''.'') then stem else name)"

record summary =
  summary_workflow_id :: "string option"
  summary_status :: status
  summary_input_video :: "path option"
  summary_output_video :: "path option"
  summary_started_at :: real

text \<open>
  The \<^verbatim>\<open>try\<close> block of \<^verbatim>\<open>start_workflow\<close>: the existence check comes first, the state
  is reset only after it.
\<close>

definition try_start_workflow ::
  "env \<Rightarrow> config \<Rightarrow> path \<Rightarrow> workflow_config \<Rightarrow> session
     \<Rightarrow> ((error + summary) \<times> session) option" where
  "try_start_workflow ev cfg input_video wc s0 =
     (if \<not> os_path_exists (wld s0) input_video then Some (Inl FileNotFoundError, s0)
      else
       (let s1 = reset_state s0;
            wid = uuid4 ev (uuid_calls (wld s1));
            s2 = assign (\<lambda>m. m\<lparr>workflow_id := Some wid\<rparr>)
                   (s1\<lparr>wld := (wld s1)\<lparr>uuid_calls := uuid_calls (wld s1) + 1\<rparr>\<rparr>);
            s3 = assign (\<lambda>m. m\<lparr>input_video_path := Some input_video\<rparr>) s2;
            s4 = assign (\<lambda>m. m\<lparr>status := Preparing\<rparr>) s3
        in case read_clock ev s4 of
          (t, s5) \<Rightarrow>
           (let s6 = assign (\<lambda>m. m\<lparr>start_time := Some t\<rparr>) s5 in
            case read_clock ev s6 of
              (now, s7) \<Rightarrow>
               (let wdir = path_join (temp_dir cfg)
                             (''workflow_'' @ strftime ev now @ ''_'' @ take 8 wid);
                    s8 = assign (\<lambda>m. m\<lparr>working_dir := Some wdir\<rparr>) s7
                in case ensure_directory wdir (wld s8) of
                     Inl e \<Rightarrow> Some (Inl e, s8)
                   | Inr w9 \<Rightarrow>
                      (let output = path_join (output_dir cfg)
                                      (splitext_root (basename input_video) @ ''_replicated.mp4'');
                           s9 = assign (\<lambda>m. m\<lparr>output_video_path := Some output\<rparr>)
                                  (s8\<lparr>wld := w9\<rparr>)
                       in case execute_workflow_steps ev wc s9 of
                            None \<Rightarrow> None
                          | Some (Inl e, s10) \<Rightarrow> Some (Inl e, s10)
                          | Some (Inr u, s10) \<Rightarrow>
                             (case read_clock ev s10 of
                                (started, s11) \<Rightarrow>
                                  Some (Inr \<lparr>summary_workflow_id = workflow_id (mgr s11),
                                             summary_status = status (mgr s11),
                                             summary_input_video = input_video_path (mgr s11),
                                             summary_output_video = output_video_path (mgr s11),
                                             summary_started_at = started\<rparr>, s11)))))))"

text \<open>\<^verbatim>\<open>start_workflow\<close>: the handler records the failure and raises again.\<close>

definition start_workflow ::
  "env \<Rightarrow> config \<Rightarrow> path \<Rightarrow> workflow_config \<Rightarrow> session
     \<Rightarrow> ((error + summary) \<times> session) option" where
  "start_workflow ev cfg input_video wc s =
     (case try_start_workflow ev cfg input_video wc s of
        None \<Rightarrow> None
      | Some (Inl e, s') \<Rightarrow> Some (Inl e, set_failed_state ev s')
      | Some (Inr r, s') \<Rightarrow> Some (Inr r, s'))"




text \<open>
  \<^verbatim>\<open>cancel_workflow\<close>: refused in a terminal status; otherwise the status and the end
  time are set and the cancellation of the remote task, if there is one, is requested
  (an exception of that request is logged and dropped).
\<close>

datatype cancel_result = CancelRefused | CancelDone "string option"

definition success :: "cancel_result \<Rightarrow> bool" where
  "success r \<longleftrightarrow> r \<noteq> CancelRefused"

definition cancel_workflow :: "env \<Rightarrow> session \<Rightarrow> cancel_result \<times> session" where
  "cancel_workflow ev s =
     (if status (mgr s) \<in> set [Completed, Failed, Canceled] then (CancelRefused, s)
      else
       (let s1 = assign (\<lambda>m. m\<lparr>status := Canceled\<rparr>) s in
        case read_clock ev s1 of
          (t, s2) \<Rightarrow>
           (let s3 = assign (\<lambda>m. m\<lparr>end_time := Some t\<rparr>) s2;
                s4 = (case task_id (mgr s3) of
                        None \<Rightarrow> s3
                      | Some tid \<Rightarrow>
                          if tid = [] then s3
                          else s3\<lparr>wld := (wld s3)\<lparr>cancel_requests :=
                                                     cancel_requests (wld s3) @ [tid]\<rparr>\<rparr>)
            in (CancelDone (workflow_id (mgr s4)), s4))))"

text \<open>
  \<^verbatim>\<open>cleanup(keep_results)\<close>: closes the client, removes the working directory if it
  exists, and removes the output video when \<open>keep_results\<close> is false.
\<close>

definition cleanup :: "bool \<Rightarrow> session \<Rightarrow> (error + unit) \<times> session" where
  "cleanup keep_results s =
     (let w1 = (wld s)\<lparr>client_open := False\<rparr>;
          w2 = (case working_dir (mgr s) of
                  None \<Rightarrow> w1
                | Some d \<Rightarrow> if d \<noteq> [] \<and> os_path_exists w1 d then remove_directory d w1 else w1)
      in case (if keep_results then None else output_video_path (mgr s)) of
           None \<Rightarrow> (Inr (), s\<lparr>wld := w2\<rparr>)
         | Some p \<Rightarrow>
             if p \<noteq> [] \<and> os_path_exists w2 p then
               (case os_remove p w2 of
                  Inl e \<Rightarrow> (Inl e, s\<lparr>wld := w2\<rparr>)
                | Inr w3 \<Rightarrow> (Inr (), s\<lparr>wld := w3\<rparr>))
             else (Inr (), s\<lparr>wld := w2\<rparr>))"


subsection \<open>Concrete sessions\<close>

text \<open>
  A seven-frame clip at 30 frames per second, a world that holds it as \<^verbatim>\<open>in.mp4\<close>, and
  surroundings in which every remote call succeeds and the pool completes its tasks in
  the order given.
\<close>

definition frame_img :: "nat \<Rightarrow> image" where
  "frame_img k = \<lparr>img_height = 2, img_width = 3, img_pixels = Source k\<rparr>"

definition clip7 :: video where
  "clip7 = \<lparr>video_fps = 30, video_frame_count = 7, video_width = 3, video_height = 2,
     video_frames = map frame_img [0..<7]\<rparr>"

definition world0 :: world where
  "world0 = \<lparr>files = [([''in.mp4''], Video clip7)], dirs = [[]], undeletable = [],
     tick = 0, uuid_calls = 0, client_open = True, uploads = [], polls = 0,
     cancel_requests = []\<rparr>"

definition env_with :: "nat list \<Rightarrow> bool \<Rightarrow> env" where
  "env_with order conn =
     \<lparr>clock = (\<lambda>n. 1000 + real n), uuid4 = (\<lambda>n. ''0a1b2c3d-0000''),
      strftime = (\<lambda>t. ''20240101_120000''), as_completed = (\<lambda>n. order),
      connection_ok = conn, submit_response = Inr (Some ''task-1''),
      upload_raises = (\<lambda>p. None), task_status = (\<lambda>k. Inr RemoteCompleted)\<rparr>"

definition config0 :: config where
  "config0 = \<lparr>temp_dir = [''temp''], output_dir = [''outputs'']\<rparr>"

definition workflow_config0 :: workflow_config where
  "workflow_config0 =
     \<lparr>frame_rate = Some 10, max_frames = None, preprocess = default_preprocess_config,
      replacement = None\<rparr>"

definition session0 :: session where
  "session0 = \<lparr>mgr = init_manager, observed = [], wld = world0\<rparr>"


subsection \<open>Notions used in the statements\<close>






definition frame_names :: "path \<Rightarrow> nat \<Rightarrow> nat \<Rightarrow> path list" where
  "frame_names out e n = map (\<lambda>k. path_join out (frame_filename k)) [e..<e + n]"

text \<open>The successive distinct end times and statuses a session has shown.\<close>

definition end_times :: "session \<Rightarrow> real option list" where
  "end_times s = remdups_adj (map end_time (observed s))"


text \<open>
  More concrete states: a session that has completed a run, the same with a working
  directory that cannot be deleted, a world with two extracted frames, one with frames of
  two sizes, one whose video has no frame, and a workflow configuration with the person
  replacement switched on.
\<close>

definition finished_session :: session where
  "finished_session =
     \<lparr>mgr = \<lparr>workflow_id = Some ''0a1b2c3d-0000'', status = Completed, progress = 100,
             start_time = Some 1000, end_time = Some 1002,
             working_dir = Some [''temp'', ''workflow_20240101_120000_0a1b2c3d''],
             input_video_path = Some [''in.mp4''],
             output_video_path = Some [''outputs'', ''in_replicated.mp4''],
             frame_paths = [[''temp'', ''workflow_20240101_120000_0a1b2c3d'', ''frames'',
                             ''frame_000000.png'']],
             processed_frame_paths =
               [[''temp'', ''workflow_20240101_120000_0a1b2c3d'', ''processed_frames'',
                 ''frame_000000.png'']],
             task_id = Some ''task-1''\<rparr>,
      observed = [],
      wld = world0\<lparr>dirs := [[], [''temp''],
                              [''temp'', ''workflow_20240101_120000_0a1b2c3d'']],
                     tick := 4\<rparr>\<rparr>"

definition stuck_session :: session where
  "stuck_session = finished_session\<lparr>wld := (wld finished_session)\<lparr>undeletable :=
      [[''temp'', ''workflow_20240101_120000_0a1b2c3d'']]\<rparr>\<rparr>"

definition frames2_world :: world where
  "frames2_world = world0\<lparr>files :=
      [([''frames'', ''frame_000000.png''], Image (frame_img 0)),
       ([''frames'', ''frame_000001.png''], Image (frame_img 1))],
     dirs := [[], [''frames'']]\<rparr>"

definition frames_world :: world where
  "frames_world = world0\<lparr>files :=
      [([''f0.png''], Image (frame_img 0)),
       ([''f1.png''], Image \<lparr>img_height = 4, img_width = 6, img_pixels = Source 1\<rparr>),
       ([''in.mp4''], Video clip7)]\<rparr>"


definition replacement_on :: workflow_config where
  "replacement_on = workflow_config0\<lparr>replacement :=
      Some \<lparr>person_enabled = True, background_enabled = False, product_enabled = False\<rparr>\<rparr>"


text \<open>
  For the proofs about the observed states: a list of successive manager states, read
  after the state \<open>m\<close>, is in order when the progress never decreases nor exceeds 100,
  a state marked failed has the progress of the state before it, and a state marked
  completed has progress 100. A session \<open>s'\<close> continues \<open>s\<close> when its observed states
  are those of \<open>s\<close> followed by such a list that ends in its current state.
\<close>

fun in_order :: "manager \<Rightarrow> manager list \<Rightarrow> bool" where
  "in_order m [] = True"
| "in_order m (x # xs) =
     (progress m \<le> progress x \<and> progress x \<le> 100 \<and>
      (if status x = Failed then progress x = progress m else True) \<and>
      (if status x = Completed then progress x = 100 else True) \<and>
      in_order x xs)"

definition continues :: "session \<Rightarrow> session \<Rightarrow> bool" where
  "continues s s' \<longleftrightarrow>
     (\<exists>new. observed s' = observed s @ new \<and> mgr s' = last (mgr s # new) \<and>
            in_order (mgr s) new)"

definition running :: "manager \<Rightarrow> bool" where
  "running m \<longleftrightarrow> status m \<noteq> Failed \<and> status m \<noteq> Completed"





section \<open>Properties\<close>

subsection \<open>Frame extraction\<close>


lemma frame_names_0 [simp]: "frame_names out e 0 = []"
  by (simp add: frame_names_def)


lemma length_frame_names [simp]: "length (frame_names out e n) = n"
  by (simp add: frame_names_def)












lemma ensure_directory_files: "ensure_directory p w = Inr w1 \<Longrightarrow> files w1 = files w"
  by (auto simp: ensure_directory_def split: if_splits)








subsection \<open>Video composition\<close>


lemma imread_cong: "files w1 = files w \<Longrightarrow> imread w1 = imread w"
  by (auto simp: imread_def fun_eq_iff)

lemma write_frames_eq:
  "write_frames w h wd ps = map (fit_frame h wd) (List.map_filter (imread w) ps)"
  by (induction ps) (auto simp: List.map_filter_simps split: option.splits)

lemma fit_frame_dims: "img_height (fit_frame h wd f) = h \<and> img_width (fit_frame h wd f) = wd"
  by (simp add: fit_frame_def)

lemma length_map_filter: "length (List.map_filter f xs) = length [x \<leftarrow> xs. f x \<noteq> None]"
  by (induction xs) (auto simp: List.map_filter_simps split: option.splits)

text \<open>
  Claim C6, amended. An empty input sequence raises an error. For a non-empty sequence
  whose first frame loads (and whose output directory can be created) the call succeeds:
  the reference size is the size of that first frame, every frame that fails to load is
  skipped, every loaded frame of another size is resized to the reference size and every
  other loaded frame is written unchanged, so the written frame count is the number of
  loadable frames, which may be less than the input count.
\<close>

theorem frames_to_video_normalizes:
  "frames_to_video [] out_path fps w = (Inl ValueError, w) \<and>
   (fpaths \<noteq> [] \<and> ensure_directory (dirname out_path) w = Inr w1 \<and>
    imread w (hd fpaths) = Some first_frame \<longrightarrow>
      (\<exists>w' vid. frames_to_video fpaths out_path fps w = (Inr out_path, w') \<and>
          VideoCapture w' out_path = Some vid \<and>
          video_height vid = img_height first_frame \<and>
          video_width vid = img_width first_frame \<and>
          video_frames vid =
            map (fit_frame (img_height first_frame) (img_width first_frame))
              (List.map_filter (imread w) fpaths) \<and>
          (\<forall>f \<in> set (video_frames vid).
              img_height f = img_height first_frame \<and> img_width f = img_width first_frame) \<and>
          (\<forall>f. img_height f = img_height first_frame \<and> img_width f = img_width first_frame \<longrightarrow>
              fit_frame (img_height first_frame) (img_width first_frame) f = f) \<and>
          length (video_frames vid) = length [p \<leftarrow> fpaths. imread w p \<noteq> None] \<and>
          length (video_frames vid) \<le> length fpaths))"
proof (intro conjI impI)
  show "frames_to_video [] out_path fps w = (Inl ValueError, w)"
    by (simp add: frames_to_video_def)
next
  assume a: "fpaths \<noteq> [] \<and> ensure_directory (dirname out_path) w = Inr w1 \<and>
    imread w (hd fpaths) = Some first_frame"
  have r: "imread w1 = imread w" using a ensure_directory_files imread_cong by blast
  let ?h = "img_height first_frame" and ?wd = "img_width first_frame"
  let ?written = "map (fit_frame ?h ?wd) (List.map_filter (imread w) fpaths)"
  let ?vid = "\<lparr>video_fps = fps, video_frame_count = int (length ?written), video_width = ?wd,
                video_height = ?h, video_frames = ?written\<rparr>"
  let ?w' = "w1\<lparr>files := (out_path, Video ?vid) # files w1\<rparr>"
  have run: "frames_to_video fpaths out_path fps w = (Inr out_path, ?w')"
    using a r by (simp add: frames_to_video_def write_frames_eq Let_def)
  have cap: "VideoCapture ?w' out_path = Some ?vid" by (simp add: VideoCapture_def)
  have vh: "video_height ?vid = ?h" and vw: "video_width ?vid = ?wd" by simp_all
  have vf: "video_frames ?vid = ?written" by simp
  have dims: "\<forall>f \<in> set (video_frames ?vid). img_height f = ?h \<and> img_width f = ?wd"
    unfolding vf by (simp add: fit_frame_dims)
  have same: "\<forall>f. img_height f = ?h \<and> img_width f = ?wd \<longrightarrow> fit_frame ?h ?wd f = f"
    by (simp add: fit_frame_def)
  have len: "length (video_frames ?vid) = length [p \<leftarrow> fpaths. imread w p \<noteq> None]"
    unfolding vf by (simp add: length_map_filter)
  have le: "length (video_frames ?vid) \<le> length fpaths" unfolding len by simp
  show "\<exists>w' vid. frames_to_video fpaths out_path fps w = (Inr out_path, w') \<and>
          VideoCapture w' out_path = Some vid \<and>
          video_height vid = img_height first_frame \<and>
          video_width vid = img_width first_frame \<and>
          video_frames vid =
            map (fit_frame (img_height first_frame) (img_width first_frame))
              (List.map_filter (imread w) fpaths) \<and>
          (\<forall>f \<in> set (video_frames vid).
              img_height f = img_height first_frame \<and> img_width f = img_width first_frame) \<and>
          (\<forall>f. img_height f = img_height first_frame \<and> img_width f = img_width first_frame \<longrightarrow>
              fit_frame (img_height first_frame) (img_width first_frame) f = f) \<and>
          length (video_frames vid) = length [p \<leftarrow> fpaths. imread w p \<noteq> None] \<and>
          length (video_frames vid) \<le> length fpaths"
    by (rule exI[of _ ?w'], rule exI[of _ ?vid]) (intro conjI run cap vh vw vf dims same len le)
qed




text \<open>
  Claim C6 as stated fails when the first frame does not load: the size is not taken from
  the first valid frame; the call raises although a later frame is readable.
\<close>

theorem frames_to_video_first_unreadable_counterexample:
  "imread frames_world [''f0.png''] = Some (frame_img 0) \<and>
   fst (frames_to_video [[''missing.png''], [''f0.png'']] [''out.mp4''] 10 frames_world)
     = Inl ValueError"
  by code_simp

theorem frames_to_video_normalizes_witness:
  "[[''f0.png''], [''missing.png''], [''f1.png'']] \<noteq> [] \<and>
   ensure_directory (dirname [''out.mp4'']) frames_world = Inr frames_world \<and>
   imread frames_world (hd [[''f0.png''], [''missing.png''], [''f1.png'']]) = Some (frame_img 0) \<and>
   (\<exists>w' vid. frames_to_video [[''f0.png''], [''missing.png''], [''f1.png'']] [''out.mp4''] 10 frames_world
                 = (Inr [''out.mp4''], w') \<and>
       VideoCapture w' [''out.mp4''] = Some vid \<and>
       video_frames vid = [frame_img 0, \<lparr>img_height = 2, img_width = 3, img_pixels = Resized (Source 1)\<rparr>] \<and>
       length (video_frames vid) \<le> length [[''f0.png''], [''missing.png''], [''f1.png'']])"
proof -
  let ?ps = "[[''f0.png''], [''missing.png''], [''f1.png'']]"
  have h: "?ps \<noteq> [] \<and> ensure_directory (dirname [''out.mp4'']) frames_world = Inr frames_world \<and>
           imread frames_world (hd ?ps) = Some (frame_img 0)"
    by (simp add: ensure_directory_def dirname_def frames_world_def world0_def is_file_def
          imread_def List.union_def List.insert_def)
  have m: "map (fit_frame (img_height (frame_img 0)) (img_width (frame_img 0)))
             (List.map_filter (imread frames_world) ?ps)
           = [frame_img 0, \<lparr>img_height = 2, img_width = 3, img_pixels = Resized (Source 1)\<rparr>]"
    by (simp add: List.map_filter_simps imread_def frames_world_def fit_frame_def frame_img_def)
  from frames_to_video_normalizes[of "[''out.mp4'']" 10 frames_world ?ps frames_world "frame_img 0"] h
  obtain w' vid where
    "frames_to_video ?ps [''out.mp4''] 10 frames_world = (Inr [''out.mp4''], w')"
    "VideoCapture w' [''out.mp4''] = Some vid"
    "video_frames vid = map (fit_frame (img_height (frame_img 0)) (img_width (frame_img 0)))
              (List.map_filter (imread frames_world) ?ps)"
    "length (video_frames vid) \<le> length ?ps"
    by blast
  then show ?thesis using h m
    by (intro conjI exI[of _ w'] exI[of _ vid]) simp_all
qed


subsection \<open>Cancellation, missing input, cleanup\<close>


text \<open>
  Claim C8. \<^verbatim>\<open>cancel_workflow\<close> on a session whose status is completed, failed or
  canceled reports no success and leaves the whole session as it was: neither the end
  time nor any other field of the manager changes, and nothing is requested from the
  remote service.
\<close>

theorem cancel_terminal_guard:
  assumes "status (mgr s) \<in> {Completed, Failed, Canceled}"
  shows "\<not> success (fst (cancel_workflow ev s)) \<and> snd (cancel_workflow ev s) = s"
  using assms by (auto simp: cancel_workflow_def success_def)

theorem cancel_terminal_guard_witness:
  "status (mgr finished_session) \<in> {Completed, Failed, Canceled} \<and>
   \<not> success (fst (cancel_workflow (env_with [] True) finished_session)) \<and>
   snd (cancel_workflow (env_with [] True) finished_session) = finished_session"
proof -
  have h: "status (mgr finished_session) \<in> {Completed, Failed, Canceled}"
    by (simp add: finished_session_def)
  show ?thesis using h cancel_terminal_guard[OF h, of "env_with [] True"] by simp
qed

text \<open>
  Claim C10. \<^verbatim>\<open>start_workflow\<close> on an input path that does not exist raises
  \<^verbatim>\<open>FileNotFoundError\<close>, sets the status to failed and records an end time, and changes
  no other field of the manager: the workflow id, progress, working directory, input and
  output paths, frame lists and task id are those of the previous session, the existence
  check coming before the reset.
\<close>

theorem start_workflow_missing_input:
  assumes "\<not> os_path_exists (wld s) input_video"
  shows "\<exists>s'. start_workflow ev cfg input_video wc s = Some (Inl FileNotFoundError, s') \<and>
           mgr s' = (mgr s)\<lparr>status := Failed, end_time := Some (clock ev (tick (wld s)))\<rparr> \<and>
           observed s' = observed s @ [mgr s']"
  using assms
  by (simp add: start_workflow_def try_start_workflow_def set_failed_state_def read_clock_def
        time_time_def assign_def)

theorem start_workflow_missing_input_witness:
  "\<not> os_path_exists (wld finished_session) [''gone.mp4''] \<and>
   (\<exists>s'. start_workflow (env_with [] True) config0 [''gone.mp4''] workflow_config0 finished_session
            = Some (Inl FileNotFoundError, s') \<and>
         mgr s' = (mgr finished_session)\<lparr>status := Failed,
                    end_time := Some (clock (env_with [] True) (tick (wld finished_session)))\<rparr> \<and>
         observed s' = observed finished_session @ [mgr s'])"
proof -
  have h: "\<not> os_path_exists (wld finished_session) [''gone.mp4'']"
    by (simp add: finished_session_def world0_def os_path_exists_def is_file_def is_dir_def)
  show ?thesis using h start_workflow_missing_input[OF h] by blast
qed

lemma rmtree_gone:
  assumes "is_dir w d" "\<not> stays w d"
  shows "\<not> os_path_exists (rmtree d w) d"
  using assms by (auto simp: rmtree_def os_path_exists_def is_file_def is_dir_def map_of_eq_None_iff)

lemma map_of_filter_key:
  "map_of [(p, c) \<leftarrow> xs. Q p] k = (if Q k then map_of xs k else None)"
  by (induction xs) auto

lemma exists_rmtree:
  "is_dir w d \<Longrightarrow>
     os_path_exists (rmtree d w) u = (os_path_exists w u \<and> (\<not> prefix d u \<or> stays w u))"
  by (auto simp: rmtree_def os_path_exists_def is_file_def is_dir_def map_of_filter_key)

lemma stays_rmtree: "stays (rmtree d w) p = stays w p"
proof (cases "is_dir w d")
  case False
  then show ?thesis by (simp add: rmtree_def)
next
  case True
  have u: "undeletable (rmtree d w) = undeletable w" by (simp add: rmtree_def)
  have "os_path_exists (rmtree d w) u = os_path_exists w u" if "u \<in> set (undeletable w)" for u
    using that exists_rmtree[OF True, of u] by (auto simp: stays_def)
  then show ?thesis unfolding stays_def u by blast
qed

lemma rmtree_idem: "rmtree d (rmtree d w) = rmtree d w"
proof (cases "is_dir w d")
  case False
  then show ?thesis by (simp add: rmtree_def)
next
  case True
  show ?thesis
  proof (cases "is_dir (rmtree d w) d")
    case False
    then show ?thesis by (simp add: rmtree_def[of d "rmtree d w"])
  next
    case d2: True
    have "rmtree d (rmtree d w) =
            (rmtree d w)\<lparr>files := [(p, c) \<leftarrow> files (rmtree d w). \<not> prefix d p \<or> stays w p],
                          dirs := [p \<leftarrow> dirs (rmtree d w). \<not> prefix d p \<or> stays w p]\<rparr>"
      using d2 by (simp add: rmtree_def[of d "rmtree d w"] stays_rmtree)
    also have "\<dots> = rmtree d w" using True by (simp add: rmtree_def)
    finally show ?thesis .
  qed
qed

lemma cleanup_idem:
  "cleanup True (snd (cleanup True s)) = cleanup True s"
proof -
  let ?w1 = "(wld s)\<lparr>client_open := False\<rparr>"
  have c: "client_open (rmtree d ?w1) = False" for d by (simp add: rmtree_def)
  have r: "(rmtree d ?w1)\<lparr>client_open := False\<rparr> = rmtree d ?w1" for d
    using c[of d] by simp
  show ?thesis
    by (auto simp: cleanup_def Let_def remove_directory_def r rmtree_idem split: option.splits)
qed

text \<open>
  Claim C9, amended. Two \<^verbatim>\<open>cleanup()\<close> calls in succession both return without
  raising, the second changes nothing any more, and the working directory no longer
  exists after the first call provided it is a directory in which nothing is
  undeletable; a removal that fails is ignored.
\<close>

theorem cleanup_twice:
  "\<exists>s1. cleanup True s = (Inr (), s1) \<and> cleanup True s1 = (Inr (), s1) \<and>
      (\<forall>d. working_dir (mgr s) = Some d \<and> d \<noteq> [] \<and> \<not> is_file (wld s) d \<and> \<not> stays (wld s) d
           \<longrightarrow> \<not> os_path_exists (wld s1) d)"
proof -
  have gone: "\<not> os_path_exists (wld (snd (cleanup True s))) d"
    if "working_dir (mgr s) = Some d" "d \<noteq> []" "\<not> is_file (wld s) d" "\<not> stays (wld s) d" for d
  proof (cases "is_dir (wld s) d")
    case True
    let ?w1 = "(wld s)\<lparr>client_open := False\<rparr>"
    have "is_dir ?w1 d" "\<not> stays ?w1 d" using True that
      by (simp_all add: is_dir_def stays_def os_path_exists_def is_file_def)
    from rmtree_gone[OF this] show ?thesis using that True
      by (auto simp: cleanup_def remove_directory_def os_path_exists_def is_dir_def is_file_def Let_def)
  next
    case False
    then show ?thesis using that
      by (auto simp: cleanup_def remove_directory_def os_path_exists_def is_dir_def is_file_def Let_def)
  qed
  have ok: "fst (cleanup True s) = Inr ()" by (simp add: cleanup_def Let_def)
  have "cleanup True s = (Inr (), snd (cleanup True s))" using ok by (metis prod.collapse)
  moreover have "cleanup True (snd (cleanup True s)) = (Inr (), snd (cleanup True s))"
    using cleanup_idem[of s] calculation by simp
  ultimately show ?thesis using gone by blast
qed

theorem cleanup_twice_witness:
  "\<exists>s1. cleanup True finished_session = (Inr (), s1) \<and> cleanup True s1 = (Inr (), s1) \<and>
     working_dir (mgr finished_session) = Some [''temp'', ''workflow_20240101_120000_0a1b2c3d''] \<and>
     \<not> is_file (wld finished_session) [''temp'', ''workflow_20240101_120000_0a1b2c3d''] \<and>
     \<not> stays (wld finished_session) [''temp'', ''workflow_20240101_120000_0a1b2c3d''] \<and>
     \<not> os_path_exists (wld s1) [''temp'', ''workflow_20240101_120000_0a1b2c3d'']"
proof -
  let ?d = "[''temp'', ''workflow_20240101_120000_0a1b2c3d'']"
  have h: "working_dir (mgr finished_session) = Some ?d \<and> ?d \<noteq> [] \<and>
           \<not> is_file (wld finished_session) ?d \<and> \<not> stays (wld finished_session) ?d"
    by (simp add: finished_session_def world0_def is_file_def stays_def)
  from cleanup_twice[of finished_session] obtain s1 where
    c: "cleanup True finished_session = (Inr (), s1)" "cleanup True s1 = (Inr (), s1)"
       "\<forall>d. working_dir (mgr finished_session) = Some d \<and> d \<noteq> [] \<and>
            \<not> is_file (wld finished_session) d \<and> \<not> stays (wld finished_session) d
            \<longrightarrow> \<not> os_path_exists (wld s1) d"
    by blast
  from c(3) h have "\<not> os_path_exists (wld s1) ?d" by blast
  then show ?thesis using c h by blast
qed

text \<open>
  Claim C9 as stated fails for a working directory that cannot be deleted: the removal
  ignores errors, so the call returns normally and the directory is still there.
\<close>

theorem cleanup_undeletable_counterexample:
  "working_dir (mgr stuck_session) = Some [''temp'', ''workflow_20240101_120000_0a1b2c3d''] \<and>
   fst (cleanup True stuck_session) = Inr () \<and>
   os_path_exists (wld (snd (cleanup True stuck_session)))
     [''temp'', ''workflow_20240101_120000_0a1b2c3d'']"
  by code_simp


subsection \<open>Progress\<close>




lemma continues_wld [simp]: "continues s (s'\<lparr>wld := w\<rparr>) = continues s s'"
  by (simp add: continues_def)

lemma continues_assign:
  assumes "progress (mgr s) \<le> progress (f (mgr s))" "progress (f (mgr s)) \<le> 100"
    "status (f (mgr s)) = Failed \<Longrightarrow> progress (f (mgr s)) = progress (mgr s)"
    "status (f (mgr s)) = Completed \<Longrightarrow> progress (f (mgr s)) = 100"
  shows "continues s (assign f s)"
  using assms by (auto simp: continues_def assign_def)


lemma continues_update_progress:
  assumes "progress (mgr s) \<le> p" "p \<le> 100" "0 \<le> p" "running (mgr s)"
  shows "continues s (update_progress p s)"
  unfolding update_progress_def using assms by (intro continues_assign) (auto simp: running_def)

lemma continues_field:
  assumes "progress (f (mgr s)) = progress (mgr s)" "status (f (mgr s)) = status (mgr s)"
    "running (mgr s)" "progress (mgr s) \<le> 100"
  shows "continues s (assign f s)"
  using assms by (intro continues_assign) (auto simp: running_def)


lemma mgr_simps [simp]:
  "mgr (assign f s) = f (mgr s)"
  "mgr (update_status st s) = (mgr s)\<lparr>status := st\<rparr>"
  "mgr (update_progress p s) = (mgr s)\<lparr>progress := min 100 (max 0 p)\<rparr>"
  "wld (assign f s) = wld s"
  "wld (update_status st s) = wld s"
  "wld (update_progress p s) = wld s"
  by (simp_all add: assign_def update_status_def update_progress_def)




















subsection \<open>A video without frames\<close>

lemma observed_simps [simp]:
  "observed (assign f s) = observed s @ [f (mgr s)]"
  "observed (update_status st s) = observed s @ [(mgr s)\<lparr>status := st\<rparr>]"
  "observed (update_progress p s) = observed s @ [(mgr s)\<lparr>progress := min 100 (max 0 p)\<rparr>]"
  by (simp_all add: assign_def update_status_def update_progress_def)


















subsection \<open>Evaluations of the pipeline\<close>

text \<open>
  Claim C1 does not hold of the code. With two frames and a pool of two workers in which
  the task of frame 1 completes first, the returned list has the processed frame 1 at
  index 0: results are appended in completion order. Only when the tasks complete in
  submission order does entry \<open>i\<close> correspond to input frame \<open>i\<close>.
\<close>

theorem preprocess_frames_completion_order:
  "pool_order 2 2 [1, 0] \<and>
   fst (preprocess_frames [[''frames'', ''frame_000000.png''], [''frames'', ''frame_000001.png'']]
          [''processed''] default_preprocess_config [1, 0] frames2_world)
     = Inr [[''processed'', ''frame_000001.png''], [''processed'', ''frame_000000.png'']] \<and>
   fst (preprocess_frames [[''frames'', ''frame_000000.png''], [''frames'', ''frame_000001.png'']]
          [''processed''] default_preprocess_config [0, 1] frames2_world)
     = Inr [[''processed'', ''frame_000000.png''], [''processed'', ''frame_000001.png'']]"
  by code_simp

text \<open>
  Claim C2 does not hold of the code. When a step raises (here the connectivity check
  fails), the handler of \<^verbatim>\<open>_execute_workflow_steps\<close> records the end time 1002 and the
  handler of \<^verbatim>\<open>start_workflow\<close> overwrites it with 1003: the end time of the session
  takes two values after the terminal transition.
\<close>

theorem end_time_assigned_twice:
  "map_option (\<lambda>(r, s'). (r, end_times s'))
     (start_workflow (env_with [0, 1, 2] False) config0 [''in.mp4''] workflow_config0 session0)
   = Some (Inl RuntimeError, [None, Some 1002, Some 1003])"
  by code_simp

text \<open>
  Claim C4 does not hold of the code. With the person replacement enabled the run
  succeeds, the frames uploaded for the task are the files of \<^verbatim>\<open>processed_frames\<close>,
  while the processed frame paths of the session are those of \<^verbatim>\<open>replaced_frames\<close>.
\<close>

theorem upload_ignores_replacement:
  "map_option (\<lambda>(r, s'). (isl r, map (snd \<circ> snd) (uploads (wld s')), processed_frame_paths (mgr s')))
     (start_workflow (env_with [0, 1, 2] True) config0 [''in.mp4''] replacement_on session0)
   = Some (False,
       [[''temp'', ''workflow_20240101_120000_0a1b2c3d'', ''processed_frames'', ''frame_000000.png''],
        [''temp'', ''workflow_20240101_120000_0a1b2c3d'', ''processed_frames'', ''frame_000001.png''],
        [''temp'', ''workflow_20240101_120000_0a1b2c3d'', ''processed_frames'', ''frame_000002.png'']],
       [[''temp'', ''workflow_20240101_120000_0a1b2c3d'', ''replaced_frames'', ''frame_000000.png''],
        [''temp'', ''workflow_20240101_120000_0a1b2c3d'', ''replaced_frames'', ''frame_000001.png''],
        [''temp'', ''workflow_20240101_120000_0a1b2c3d'', ''replaced_frames'', ''frame_000002.png'']])"
  by code_simp

end
